theory Spec2Isabelle
  imports Complex_Main "HOL-Library.AList"
begin

section \<open>Tables, rows and errors\<close>

text \<open>
  The Python exceptions the feature modules raise or run into: \<open>ValueError\<close> (raised
  explicitly), \<open>KeyError\<close> (a column or key that is not there), \<open>TypeError\<close>
  (arithmetic on a string) and \<open>IndexError\<close> (\<open>iloc[0]\<close> on a frame without rows).
\<close>

datatype error = ValueError string | KeyError string | TypeError | IndexError

definition bind_result :: "error + 'a \<Rightarrow> ('a \<Rightarrow> error + 'b) \<Rightarrow> error + 'b" where
  "bind_result m f = (case m of Inl e \<Rightarrow> Inl e | Inr x \<Rightarrow> f x)"

fun map_result :: "('a \<Rightarrow> error + 'b) \<Rightarrow> 'a list \<Rightarrow> error + 'b list" where
  "map_result f [] = Inr []"
| "map_result f (x # xs) =
     (case f x of Inl e \<Rightarrow> Inl e
      | Inr y \<Rightarrow> (case map_result f xs of Inl e \<Rightarrow> Inl e | Inr ys \<Rightarrow> Inr (y # ys)))"

text \<open>
  A table cell. \<open>CNone\<close> is a missing value (Python \<open>None\<close> or NaN). Numbers are exact
  reals: the properties below are about which rows and which formula produce a value,
  not about rounding.
\<close>

datatype cell = CInt int | CReal real | CStr string | CBool bool | CNone

definition cell_of_real_opt :: "real option \<Rightarrow> cell" where
  "cell_of_real_opt v = (case v of None \<Rightarrow> CNone | Some x \<Rightarrow> CReal x)"

text \<open>Python truthiness of a cell, for \<open>if is_home:\<close>.\<close>

fun truthy :: "cell \<Rightarrow> bool" where
  "truthy (CBool b) = b"
| "truthy (CInt i) = (i \<noteq> 0)"
| "truthy (CReal x) = (x \<noteq> 0)"
| "truthy (CStr s) = (s \<noteq> [])"
| "truthy CNone = False"

text \<open>
  A row is a Python dict (or a pandas Series read by label): keys in insertion order.
  A DataFrame is its column labels and its rows. \<open>pd.DataFrame(list_of_dicts)\<close> takes
  the columns from the keys in order of first appearance, so the frame of an empty list
  has no column at all. Rows of one frame are taken to carry the same keys.
\<close>

type_synonym row = "(string \<times> cell) list"

record dataframe =
  columns :: "string list"
  rows :: "row list"

definition unique :: "'a list \<Rightarrow> 'a list" where
  "unique xs = rev (remdups (rev xs))"

definition DataFrame :: "row list \<Rightarrow> dataframe" where
  "DataFrame data = \<lparr>columns = unique (concat (map (map fst) data)), rows = data\<rparr>"

definition df_empty :: "dataframe \<Rightarrow> bool" where
  "df_empty df = (rows df = [] \<or> columns df = [])"

text \<open>\<open>series[key]\<close> raises KeyError for an unknown label; \<open>series.get(key, d)\<close> does not.\<close>

definition series_get :: "row \<Rightarrow> string \<Rightarrow> error + cell" where
  "series_get r k = (case map_of r k of None \<Rightarrow> Inl (KeyError k) | Some v \<Rightarrow> Inr v)"

definition series_get_default :: "row \<Rightarrow> string \<Rightarrow> cell \<Rightarrow> cell" where
  "series_get_default r k d = (case map_of r k of None \<Rightarrow> d | Some v \<Rightarrow> v)"

text \<open>\<open>df[df[col] == v]\<close>: KeyError when the frame has no such column.\<close>

definition df_where_eq :: "dataframe \<Rightarrow> string \<Rightarrow> cell \<Rightarrow> error + dataframe" where
  "df_where_eq df col v =
     (if col \<in> set (columns df)
      then Inr (df\<lparr>rows := filter (\<lambda>r. map_of r col = Some v) (rows df)\<rparr>)
      else Inl (KeyError col))"

text \<open>\<open>df[(df[c1] == v1) & (df[c2] == v2)]\<close>; the two masks are built left to right.\<close>

definition df_where_eq2 ::
  "dataframe \<Rightarrow> string \<Rightarrow> cell \<Rightarrow> string \<Rightarrow> cell \<Rightarrow> error + dataframe" where
  "df_where_eq2 df c1 v1 c2 v2 =
     (if c1 \<notin> set (columns df) then Inl (KeyError c1)
      else if c2 \<notin> set (columns df) then Inl (KeyError c2)
      else Inr (df\<lparr>rows := filter (\<lambda>r. map_of r c1 = Some v1 \<and> map_of r c2 = Some v2)
                              (rows df)\<rparr>))"

text \<open>\<open>df[col] = v\<close> for a scalar \<open>v\<close>, and \<open>df.drop(columns=[col])\<close>.\<close>

definition set_column :: "dataframe \<Rightarrow> string \<Rightarrow> cell \<Rightarrow> dataframe" where
  "set_column df col v =
     \<lparr>columns = (if col \<in> set (columns df) then columns df else columns df @ [col]),
      rows = map (AList.update col v) (rows df)\<rparr>"

definition drop_column :: "dataframe \<Rightarrow> string \<Rightarrow> dataframe" where
  "drop_column df col =
     \<lparr>columns = filter (\<lambda>c. c \<noteq> col) (columns df),
      rows = map (AList.delete col) (rows df)\<rparr>"

text \<open>\<open>{**a, **b}\<close> and \<open>a.update(b)\<close>: the entries of \<open>b\<close> are stored into \<open>a\<close> in order.\<close>

definition dict_update :: "row \<Rightarrow> row \<Rightarrow> row" where
  "dict_update a b = fold (\<lambda>(k, v). AList.update k v) b a"

section \<open>Schedule rows\<close>

text \<open>
  One row of the schedule table returned by \<open>SchedulesReader.load_schedules\<close>. The
  reader guarantees the columns \<open>game_id\<close>, \<open>season\<close>, \<open>week\<close>, \<open>home_team\<close>,
  \<open>away_team\<close>, \<open>spread_line\<close>, \<open>total_line\<close> and \<open>moneyline\<close>; the market values may
  be missing (NaN or None), which is \<open>None\<close> here. The outcome columns \<open>home_score\<close>,
  \<open>away_score\<close> and \<open>result\<close> may be absent or missing; both read as \<open>None\<close>
  (\<open>game.get(col)\<close> followed by \<open>pd.notna\<close> does not tell them apart).
  Numbers of the tables are modelled as exact reals; weeks and seasons are integers.
\<close>

record game =
  game_id :: string
  season :: int
  week :: int
  home_team :: string
  away_team :: string
  spread_line :: "real option"
  total_line :: "real option"
  moneyline :: "real option"
  home_score :: "real option"
  away_score :: "real option"
  result :: "real option"

section \<open>Rolling window aggregator (rolling.py)\<close>

text \<open>
  The window configuration read from \<open>configs/features.yaml\<close> by
  \<open>RollingFeatureCalculator.__init__\<close>. Window sizes and the minimum number of periods
  are counts.
\<close>

record features_config =
  l3_window :: nat
  l5_window :: nat
  l6_window :: nat
  ewma_alpha :: real
  ewma_min_periods :: nat
  early_season_min_weeks :: int
  early_season_shrinkage :: real

text \<open>
  One row of the team-game metrics table, with the columns the aggregator reads: the
  team, the week and the nine per-play metrics. (The defensive columns carry the doubled
  prefix \<open>def_def_\<close> that \<open>_calculate_team_game_metrics\<close> gives them.)
\<close>

record team_game_metric =
  tgm_team :: string
  tgm_week :: int
  off_epa_play :: real
  off_pass_epa_play :: real
  off_run_epa_play :: real
  off_early_down_pass_epa_play :: real
  off_success_rate :: real
  def_def_epa_play_allowed :: real
  def_def_pass_epa_play_allowed :: real
  def_def_run_epa_play_allowed :: real
  def_def_success_rate_allowed :: real

text \<open>\<open>Series.mean()\<close> of a non-empty column, and \<open>DataFrame.tail(n)\<close>.\<close>

definition mean :: "real list \<Rightarrow> real" where
  "mean xs = sum_list xs / real (length xs)"

definition tail :: "nat \<Rightarrow> 'a list \<Rightarrow> 'a list" where
  "tail n xs = drop (length xs - n) xs"

text \<open>
  \<open>getattr(self, f'{window_name}_window', 3)\<close>: the calculator has the three attributes
  \<open>l3_window\<close>, \<open>l5_window\<close> and \<open>l6_window\<close>.
\<close>

definition window_attr :: "features_config \<Rightarrow> string \<Rightarrow> nat" where
  "window_attr cfg window_name =
     (if window_name = ''l3'' then l3_window cfg
      else if window_name = ''l5'' then l5_window cfg
      else if window_name = ''l6'' then l6_window cfg
      else 3)"

definition get_shrinkage_factor :: "features_config \<Rightarrow> nat \<Rightarrow> string \<Rightarrow> int \<Rightarrow> real" where
  "get_shrinkage_factor cfg data_length window_name current_week =
     (if current_week \<ge> early_season_min_weeks cfg then 1
      else
        (let window_size = window_attr cfg window_name
         in if data_length < window_size then early_season_shrinkage cfg else 1))"

definition get_empty_window_features :: "string \<Rightarrow> row" where
  "get_empty_window_features window_name =
     [(''off_epa_play_'' @ window_name, CReal 0),
      (''off_pass_epa_play_'' @ window_name, CReal 0),
      (''off_run_epa_play_'' @ window_name, CReal 0),
      (''off_early_down_pass_epa_play_'' @ window_name, CReal 0),
      (''off_success_rate_'' @ window_name, CReal 0),
      (''def_epa_play_allowed_'' @ window_name, CReal 0),
      (''def_pass_epa_play_allowed_'' @ window_name, CReal 0),
      (''def_run_epa_play_allowed_'' @ window_name, CReal 0),
      (''def_success_rate_allowed_'' @ window_name, CReal 0)]"

definition calculate_window_features ::
  "features_config \<Rightarrow> team_game_metric list \<Rightarrow> string \<Rightarrow> int \<Rightarrow> row" where
  "calculate_window_features cfg window_data window_name current_week =
     (if window_data = [] then get_empty_window_features window_name
      else
        (let shrinkage_factor =
               get_shrinkage_factor cfg (length window_data) window_name current_week
         in [(''off_epa_play_'' @ window_name,
                CReal (mean (map off_epa_play window_data) * shrinkage_factor)),
             (''off_pass_epa_play_'' @ window_name,
                CReal (mean (map off_pass_epa_play window_data) * shrinkage_factor)),
             (''off_run_epa_play_'' @ window_name,
                CReal (mean (map off_run_epa_play window_data) * shrinkage_factor)),
             (''off_early_down_pass_epa_play_'' @ window_name,
                CReal (mean (map off_early_down_pass_epa_play window_data) * shrinkage_factor)),
             (''off_success_rate_'' @ window_name,
                CReal (mean (map off_success_rate window_data) * shrinkage_factor)),
             (''def_epa_play_allowed_'' @ window_name,
                CReal (mean (map def_def_epa_play_allowed window_data) * shrinkage_factor)),
             (''def_pass_epa_play_allowed_'' @ window_name,
                CReal (mean (map def_def_pass_epa_play_allowed window_data) * shrinkage_factor)),
             (''def_run_epa_play_allowed_'' @ window_name,
                CReal (mean (map def_def_run_epa_play_allowed window_data) * shrinkage_factor)),
             (''def_success_rate_allowed_'' @ window_name,
                CReal (mean (map def_def_success_rate_allowed window_data) * shrinkage_factor))]))"

text \<open>
  \<open>series.ewm(alpha, min_periods).mean().iloc[-1]\<close> on a non-empty series (pandas'
  default \<open>adjust=True\<close>): the average of the observations weighted by
  \<open>(1 - alpha) ^ age\<close>, and NaN while fewer than \<open>min_periods\<close> observations exist.
\<close>

definition ewm_mean_last :: "real \<Rightarrow> nat \<Rightarrow> real list \<Rightarrow> cell" where
  "ewm_mean_last alpha min_periods xs =
     (if length xs < min_periods then CNone
      else
        (let ws = map (\<lambda>i. (1 - alpha) ^ i) [0..<length xs]
         in CReal (sum_list (map2 (*) ws (rev xs)) / sum_list ws)))"

definition get_empty_ewma_features :: row where
  "get_empty_ewma_features =
     [(''off_epa_play_ewma'', CReal 0),
      (''off_pass_epa_play_ewma'', CReal 0),
      (''off_run_epa_play_ewma'', CReal 0),
      (''off_early_down_pass_epa_play_ewma'', CReal 0),
      (''off_success_rate_ewma'', CReal 0),
      (''def_epa_play_allowed_ewma'', CReal 0),
      (''def_pass_epa_play_allowed_ewma'', CReal 0),
      (''def_run_epa_play_allowed_ewma'', CReal 0),
      (''def_success_rate_allowed_ewma'', CReal 0)]"

definition calculate_ewma_features :: "features_config \<Rightarrow> team_game_metric list \<Rightarrow> row" where
  "calculate_ewma_features cfg historical_data =
     (if historical_data = [] then get_empty_ewma_features
      else
        (let ewm = (\<lambda>col. ewm_mean_last (ewma_alpha cfg) (ewma_min_periods cfg)
                            (map col historical_data))
         in [(''off_epa_play_ewma'', ewm off_epa_play),
             (''off_pass_epa_play_ewma'', ewm off_pass_epa_play),
             (''off_run_epa_play_ewma'', ewm off_run_epa_play),
             (''off_early_down_pass_epa_play_ewma'', ewm off_early_down_pass_epa_play),
             (''off_success_rate_ewma'', ewm off_success_rate),
             (''def_epa_play_allowed_ewma'', ewm def_def_epa_play_allowed),
             (''def_pass_epa_play_allowed_ewma'', ewm def_def_pass_epa_play_allowed),
             (''def_run_epa_play_allowed_ewma'', ewm def_def_run_epa_play_allowed),
             (''def_success_rate_allowed_ewma'', ewm def_def_success_rate_allowed)]))"

definition calculate_team_rolling_features ::
  "features_config \<Rightarrow> team_game_metric list \<Rightarrow> string \<Rightarrow> int \<Rightarrow> int \<Rightarrow> row" where
  "calculate_team_rolling_features cfg historical_data team season_no week_no =
     (let l3_data = tail (l3_window cfg) historical_data;
          l3_features = calculate_window_features cfg l3_data ''l3'' week_no;
          l5_data = tail (l5_window cfg) historical_data;
          l5_features = calculate_window_features cfg l5_data ''l5'' week_no;
          l6_data = tail (l6_window cfg) historical_data;
          l6_features = calculate_window_features cfg l6_data ''l6'' week_no;
          ewma_features = calculate_ewma_features cfg historical_data
      in dict_update (dict_update (dict_update (dict_update
           [(''season'', CInt season_no), (''week'', CInt week_no), (''team'', CStr team)]
           l3_features) l5_features) l6_features) ewma_features)"

definition create_default_rolling_features :: "string \<Rightarrow> int \<Rightarrow> int \<Rightarrow> row" where
  "create_default_rolling_features team season_no week_no =
     (let features = [(''season'', CInt season_no), (''week'', CInt week_no),
                      (''team'', CStr team)];
          features = fold (\<lambda>window f. dict_update f (get_empty_window_features window))
                       [''l3'', ''l5'', ''l6''] features
      in dict_update features get_empty_ewma_features)"

text \<open>
  \<open>_calculate_rolling_windows\<close>. The metrics table is \<open>pd.DataFrame(list_of_dicts)\<close>:
  with no row it has no \<open>team\<close> column and the first access raises KeyError. Teams are
  visited in order of first appearance (\<open>unique()\<close>), weeks in \<open>range(1, week + 1)\<close>.
  \<open>sort_values('week')\<close> is modelled by a stable sort.
\<close>

definition team_history :: "team_game_metric list \<Rightarrow> string \<Rightarrow> int \<Rightarrow> team_game_metric list" where
  "team_history team_game_metrics team current_week =
     (let team_data = filter (\<lambda>r. tgm_team r = team) team_game_metrics;
          team_data = sort_key tgm_week team_data
      in filter (\<lambda>r. tgm_week r < current_week) team_data)"

definition rolling_feature_row ::
  "features_config \<Rightarrow> team_game_metric list \<Rightarrow> string \<Rightarrow> int \<Rightarrow> int \<Rightarrow> row" where
  "rolling_feature_row cfg team_game_metrics team season_no current_week =
     (let historical_data = team_history team_game_metrics team current_week
      in if historical_data = []
         then create_default_rolling_features team season_no current_week
         else calculate_team_rolling_features cfg historical_data team season_no current_week)"

definition calculate_rolling_windows ::
  "features_config \<Rightarrow> team_game_metric list \<Rightarrow> int \<Rightarrow> int \<Rightarrow> error + dataframe" where
  "calculate_rolling_windows cfg team_game_metrics season_no week_no =
     (if team_game_metrics = [] then Inl (KeyError ''team'')
      else Inr (DataFrame (concat (map
             (\<lambda>team. map (rolling_feature_row cfg team_game_metrics team season_no)
                         [1..week_no])
             (unique (map tgm_team team_game_metrics))))))"

text \<open>
  \<open>calculate_rolling_features\<close>. Loading the play-by-play data and reducing it to the
  team-game metrics table (\<open>_load_pbp_data\<close>, \<open>_load_schedules_data\<close>,
  \<open>_calculate_team_game_metrics\<close>) is the parameter \<open>load_metrics\<close>; it can fail.
\<close>

definition calculate_rolling_features ::
  "(int \<Rightarrow> int \<Rightarrow> error + team_game_metric list) \<Rightarrow> features_config \<Rightarrow> int \<Rightarrow> int
     \<Rightarrow> error + dataframe" where
  "calculate_rolling_features load_metrics cfg season_no week_no =
     (if season_no < 2000 \<or> season_no > 2030 then Inl (ValueError ''Invalid season'')
      else if week_no < 1 \<or> week_no > 22 then Inl (ValueError ''Invalid week'')
      else bind_result (load_metrics season_no week_no)
             (\<lambda>team_game_metrics.
                calculate_rolling_windows cfg team_game_metrics season_no week_no))"

subsection \<open>Properties of the rolling window aggregator\<close>

lemma map_of_fold_update:
  "map_of (fold (\<lambda>(k, v). AList.update k v) b a) = map_of a ++ map_of (rev b)"
proof (induction b arbitrary: a)
  case Nil
  then show ?case by simp
next
  case (Cons kv b)
  obtain k v where kv: "kv = (k, v)" by (cases kv)
  have "map_of (fold (\<lambda>(k, v). AList.update k v) (kv # b) a)
      = map_of (AList.update k v a) ++ map_of (rev b)"
    by (simp add: kv Cons.IH)
  also have "\<dots> = (map_of a)(k \<mapsto> v) ++ map_of (rev b)"
    by (simp add: update_conv')
  also have "\<dots> = map_of a ++ map_of (rev (kv # b))"
    by (rule ext) (simp add: kv map_add_def split: option.splits)
  finally show ?case .
qed

lemma map_of_dict_update: "map_of (dict_update a b) = map_of a ++ map_of (rev b)"
  by (simp add: dict_update_def map_of_fold_update)

text \<open>
  The nine metric columns of the team-game table and the stems of the feature names made
  from them: the feature of metric \<open>m\<close> under window \<open>name\<close> is the key \<open>stem @ name\<close>.
  The three windows are paired with their configured sizes.
\<close>

definition metric_columns :: "((team_game_metric \<Rightarrow> real) \<times> string) list" where
  "metric_columns =
     [(off_epa_play, ''off_epa_play_''),
      (off_pass_epa_play, ''off_pass_epa_play_''),
      (off_run_epa_play, ''off_run_epa_play_''),
      (off_early_down_pass_epa_play, ''off_early_down_pass_epa_play_''),
      (off_success_rate, ''off_success_rate_''),
      (def_def_epa_play_allowed, ''def_epa_play_allowed_''),
      (def_def_pass_epa_play_allowed, ''def_pass_epa_play_allowed_''),
      (def_def_run_epa_play_allowed, ''def_run_epa_play_allowed_''),
      (def_def_success_rate_allowed, ''def_success_rate_allowed_'')]"

definition window_sizes :: "features_config \<Rightarrow> (nat \<times> string) list" where
  "window_sizes cfg = [(l3_window cfg, ''l3''), (l5_window cfg, ''l5''), (l6_window cfg, ''l6'')]"

text \<open>
  The shape every per-window dict of the source has: one entry per metric column, keyed
  by the stem followed by the window name.
\<close>

definition keyed :: "string \<Rightarrow> ((team_game_metric \<Rightarrow> real) \<Rightarrow> cell) \<Rightarrow> row" where
  "keyed name f = map (\<lambda>(metric, stem). (stem @ name, f metric)) metric_columns"

lemma metric_stems_distinct: "distinct (map snd metric_columns)"
  by (simp add: metric_columns_def)

lemma keyed_lookup:
  assumes "(metric, stem) \<in> set metric_columns"
  shows "map_of (rev (keyed name f)) (stem @ name) = Some (f metric)"
proof -
  have keys: "map fst (keyed name f) = map (\<lambda>st. st @ name) (map snd metric_columns)"
    by (simp add: keyed_def case_prod_unfold)
  have "distinct (map fst (keyed name f))"
    unfolding keys using metric_stems_distinct
    by (simp add: distinct_map inj_on_def)
  then have "distinct (map fst (rev (keyed name f)))"
    by (simp add: rev_map [symmetric])
  moreover have "(stem @ name, f metric) \<in> set (rev (keyed name f))"
    using assms by (force simp: keyed_def)
  ultimately show ?thesis by simp
qed

lemma keyed_other:
  assumes "name \<noteq> []" "last k \<noteq> last name"
  shows "map_of (rev (keyed name f)) k = None"
proof -
  have "k \<notin> fst ` set (rev (keyed name f))"
    using assms by (auto simp: keyed_def)
  then show ?thesis by (simp add: map_of_eq_None_iff)
qed

lemma get_empty_window_features_keyed:
  "get_empty_window_features name = keyed name (\<lambda>m. CReal 0)"
  by (simp add: get_empty_window_features_def keyed_def metric_columns_def)

lemma calculate_window_features_keyed:
  "calculate_window_features cfg wd name w =
     keyed name (\<lambda>m. CReal (if wd = [] then 0
        else mean (map m wd) * get_shrinkage_factor cfg (length wd) name w))"
  by (simp add: calculate_window_features_def get_empty_window_features_def keyed_def
      metric_columns_def Let_def)

lemma get_empty_ewma_features_keyed:
  "get_empty_ewma_features = keyed ''ewma'' (\<lambda>m. CReal 0)"
  by (simp add: get_empty_ewma_features_def keyed_def metric_columns_def)

lemma calculate_ewma_features_keyed:
  "calculate_ewma_features cfg hist =
     keyed ''ewma'' (\<lambda>m. if hist = [] then CReal 0
        else ewm_mean_last (ewma_alpha cfg) (ewma_min_periods cfg) (map m hist))"
  by (simp add: calculate_ewma_features_def get_empty_ewma_features_def keyed_def
      metric_columns_def Let_def)

text \<open>
  The words of the specification: the rows of a team with week strictly less than \<open>W\<close>,
  sorted by week ascending, and the most recent \<open>min N count\<close> of them.
\<close>

definition eligible_rows :: "team_game_metric list \<Rightarrow> string \<Rightarrow> int \<Rightarrow> team_game_metric list" where
  "eligible_rows tgm team W =
     sort_key tgm_week (filter (\<lambda>r. tgm_team r = team \<and> tgm_week r < W) tgm)"

definition recent_rows :: "team_game_metric list \<Rightarrow> string \<Rightarrow> int \<Rightarrow> nat \<Rightarrow> team_game_metric list" where
  "recent_rows tgm team W N =
     (let eligible = eligible_rows tgm team W
      in drop (length eligible - min N (length eligible)) eligible)"

definition window_value ::
  "features_config \<Rightarrow> team_game_metric list \<Rightarrow> string \<Rightarrow> int \<Rightarrow> (team_game_metric \<Rightarrow> real) \<Rightarrow> cell" where
  "window_value cfg wd name w m =
     CReal (if wd = [] then 0
            else mean (map m wd) * get_shrinkage_factor cfg (length wd) name w)"

lemma team_history_eligible: "team_history tgm team W = eligible_rows tgm team W"
proof -
  have "(\<lambda>x. tgm_week x < W \<and> tgm_team x = team) = (\<lambda>r. tgm_team r = team \<and> tgm_week r < W)"
    by (rule ext) (rule conj_commute)
  then show ?thesis
    by (simp add: team_history_def eligible_rows_def filter_sort)
qed

lemma tail_recent: "tail N (eligible_rows tgm team W) = recent_rows tgm team W N"
proof -
  have "length xs - N = length xs - min N (length xs)" for xs :: "team_game_metric list"
    by arith
  then show ?thesis by (simp add: tail_def recent_rows_def Let_def)
qed


lemma rolling_feature_row_shape:
  "rolling_feature_row cfg tgm team s w =
     dict_update (dict_update (dict_update (dict_update
        [(''season'', CInt s), (''week'', CInt w), (''team'', CStr team)]
        (keyed ''l3'' (window_value cfg (recent_rows tgm team w (l3_window cfg)) ''l3'' w)))
        (keyed ''l5'' (window_value cfg (recent_rows tgm team w (l5_window cfg)) ''l5'' w)))
        (keyed ''l6'' (window_value cfg (recent_rows tgm team w (l6_window cfg)) ''l6'' w)))
        (keyed ''ewma'' (\<lambda>m. if eligible_rows tgm team w = [] then CReal 0
            else ewm_mean_last (ewma_alpha cfg) (ewma_min_periods cfg)
                   (map m (eligible_rows tgm team w))))"
proof (cases "eligible_rows tgm team w = []")
  case True
  then have rec: "recent_rows tgm team w N = []" for N
    by (simp add: recent_rows_def)
  have wv: "window_value cfg [] name w = (\<lambda>m. CReal 0)" for name
    by (rule ext) (simp add: window_value_def)
  show ?thesis
    by (simp add: rolling_feature_row_def team_history_eligible True rec wv
        create_default_rolling_features_def get_empty_window_features_keyed
        get_empty_ewma_features_keyed)
next
  case False
  have wv: "window_value cfg wd name w =
      (\<lambda>m. CReal (if wd = [] then 0
            else mean (map m wd) * get_shrinkage_factor cfg (length wd) name w))" for wd name
    by (rule ext) (simp add: window_value_def)
  show ?thesis
    by (simp add: rolling_feature_row_def team_history_eligible False Let_def
        calculate_team_rolling_features_def calculate_window_features_keyed
        calculate_ewma_features_keyed tail_recent wv)
qed




lemma row_lookup_metric:
  assumes "(N, name) \<in> set (window_sizes cfg)" "(metric, stem) \<in> set metric_columns"
  shows "map_of (rolling_feature_row cfg tgm team s w) (stem @ name) =
         Some (window_value cfg (recent_rows tgm team w N) name w metric)"
proof -
  from assms(1) consider "N = l3_window cfg" "name = ''l3''" | "N = l5_window cfg" "name = ''l5''"
    | "N = l6_window cfg" "name = ''l6''"
    by (auto simp: window_sizes_def)
  then show ?thesis
  proof cases
    case 1
    then show ?thesis
      by (simp add: rolling_feature_row_shape map_of_dict_update map_add_def keyed_other
          keyed_lookup [OF assms(2)])
  next
    case 2
    then show ?thesis
      by (simp add: rolling_feature_row_shape map_of_dict_update map_add_def keyed_other
          keyed_lookup [OF assms(2)])
  next
    case 3
    then show ?thesis
      by (simp add: rolling_feature_row_shape map_of_dict_update map_add_def keyed_other
          keyed_lookup [OF assms(2)])
  qed
qed

lemma set_unique: "set (unique xs) = set xs"
  by (simp add: unique_def)




lemma shrinkage_for_window:
  assumes "(N, name) \<in> set (window_sizes cfg)"
  shows "get_shrinkage_factor cfg n name w =
         (if w < early_season_min_weeks cfg \<and> n < N then early_season_shrinkage cfg else 1)"
  using assms
  by (auto simp: window_sizes_def get_shrinkage_factor_def window_attr_def)





text \<open>
  A configuration (windows 3, 5 and 6, early-season threshold 4, shrinkage 0.8) and two
  small histories of one team: two contests in weeks 1 and 2, and two rows of week 1.
\<close>

definition cfg_example :: features_config where
  "cfg_example = \<lparr>l3_window = 3, l5_window = 5, l6_window = 6, ewma_alpha = 0.3,
     ewma_min_periods = 1, early_season_min_weeks = 4, early_season_shrinkage = 0.8\<rparr>"

definition kc_metric :: "int \<Rightarrow> real \<Rightarrow> team_game_metric" where
  "kc_metric w x = \<lparr>tgm_team = ''KC'', tgm_week = w, off_epa_play = x,
     off_pass_epa_play = x, off_run_epa_play = x, off_early_down_pass_epa_play = x,
     off_success_rate = x, def_def_epa_play_allowed = x, def_def_pass_epa_play_allowed = x,
     def_def_run_epa_play_allowed = x, def_def_success_rate_allowed = x\<rparr>"

definition kc_history :: "team_game_metric list" where
  "kc_history = [kc_metric 1 0.1, kc_metric 2 0.3]"


lemma length_tail: "length (tail N xs) = min N (length xs)"
  by (simp add: tail_def)

text \<open>
  Claim C4. For each window of size \<open>N\<close> the shrinkage factor is the configured
  constant when the current week is below the early-season threshold and fewer than
  \<open>N\<close> historical rows exist, and 1 otherwise. With threshold 4, shrinkage 0.8 and
  exactly two historical contests at week 3, every L3 value is the two-game average
  times 0.8.
\<close>

theorem shrinkage_factor_rule:
  assumes "(N, name) \<in> set (window_sizes cfg)"
  shows "get_shrinkage_factor cfg (length (tail N hist)) name w =
           (if w < early_season_min_weeks cfg \<and> length hist < N
            then early_season_shrinkage cfg else 1)
       \<and> (early_season_min_weeks cfg = 4 \<and> early_season_shrinkage cfg = 0.8
            \<and> l3_window cfg = 3 \<and> team_history tgm team 3 = [a, b] \<longrightarrow>
          (\<forall>(metric, stem) \<in> set metric_columns.
             map_of (rolling_feature_row cfg tgm team s 3) (stem @ ''l3'') =
               Some (CReal ((metric a + metric b) / 2 * 0.8))))"
proof (rule conjI)
  have "length (tail N hist) < N \<longleftrightarrow> length hist < N"
    unfolding length_tail by arith
  then show "get_shrinkage_factor cfg (length (tail N hist)) name w =
      (if w < early_season_min_weeks cfg \<and> length hist < N
       then early_season_shrinkage cfg else 1)"
    by (simp add: shrinkage_for_window [OF assms])
next
  show "early_season_min_weeks cfg = 4 \<and> early_season_shrinkage cfg = 0.8
          \<and> l3_window cfg = 3 \<and> team_history tgm team 3 = [a, b] \<longrightarrow>
        (\<forall>(metric, stem) \<in> set metric_columns.
           map_of (rolling_feature_row cfg tgm team s 3) (stem @ ''l3'') =
             Some (CReal ((metric a + metric b) / 2 * 0.8)))"
  proof (intro impI ballI, clarify)
    fix metric stem
    assume cfg: "early_season_min_weeks cfg = 4" "early_season_shrinkage cfg = 0.8"
      "l3_window cfg = 3"
      and hist: "team_history tgm team 3 = [a, b]"
      and m: "(metric, stem) \<in> set metric_columns"
    have w: "(3, ''l3'') \<in> set (window_sizes cfg)"
      by (simp add: window_sizes_def cfg)
    have rec: "recent_rows tgm team 3 3 = [a, b]"
      using hist by (simp add: tail_recent [symmetric] team_history_eligible [symmetric] tail_def)
    show "map_of (rolling_feature_row cfg tgm team s 3) (stem @ ''l3'') =
        Some (CReal ((metric a + metric b) / 2 * 0.8))"
      by (simp add: row_lookup_metric [OF w m] rec window_value_def mean_def
          shrinkage_for_window [OF w] cfg)
  qed
qed

lemma kc_history_eligible: "team_history kc_history ''KC'' 3 = kc_history"
  by (simp add: team_history_def kc_history_def kc_metric_def)

theorem shrinkage_factor_rule_witness:
  "get_shrinkage_factor cfg_example (length (tail 3 kc_history)) ''l3'' 3 = 0.8
   \<and> map_of (rolling_feature_row cfg_example kc_history ''KC'' 2023 3) ''off_epa_play_l3''
       = Some (CReal ((0.1 + 0.3) / 2 * 0.8))"
proof -
  have w: "(3, ''l3'') \<in> set (window_sizes cfg_example)"
    by (simp add: window_sizes_def cfg_example_def)
  have m: "(off_epa_play, ''off_epa_play_'') \<in> set metric_columns"
    by (simp add: metric_columns_def)
  have h: "team_history kc_history ''KC'' 3 = [kc_metric 1 0.1, kc_metric 2 0.3]"
    by (simp add: kc_history_eligible) (simp add: kc_history_def)
  have prem: "early_season_min_weeks cfg_example = 4 \<and> early_season_shrinkage cfg_example = 0.8
      \<and> l3_window cfg_example = 3
      \<and> team_history kc_history ''KC'' 3 = [kc_metric 1 0.1, kc_metric 2 0.3]"
    by (simp add: cfg_example_def h)
  note rule = shrinkage_factor_rule [OF w, of kc_history 3 kc_history "''KC''"
      "kc_metric 1 0.1" "kc_metric 2 0.3" 2023]
  from rule have "get_shrinkage_factor cfg_example (length (tail 3 kc_history)) ''l3'' 3 =
      (if (3::int) < early_season_min_weeks cfg_example \<and> length kc_history < 3
       then early_season_shrinkage cfg_example else 1)"
    by (rule conjunct1)
  then have first: "get_shrinkage_factor cfg_example (length (tail 3 kc_history)) ''l3'' 3 = 0.8"
    by (simp add: cfg_example_def kc_history_def)
  from rule prem m
  have "map_of (rolling_feature_row cfg_example kc_history ''KC'' 2023 3)
          (''off_epa_play_'' @ ''l3'')
        = Some (CReal ((off_epa_play (kc_metric 1 0.1) + off_epa_play (kc_metric 2 0.3)) / 2 * 0.8))"
    by blast
  then have second: "map_of (rolling_feature_row cfg_example kc_history ''KC'' 2023 3)
      ''off_epa_play_l3'' = Some (CReal ((0.1 + 0.3) / 2 * 0.8))"
    by (simp add: kc_metric_def)
  from first second show ?thesis by (rule conjI)
qed







section \<open>Situational features: rest days (situational.py)\<close>

text \<open>
  \<open>_calculate_rest_days(games_df, team, current_week)\<close>: the team's home games followed by
  its away games, sorted by week; the games before the current week; 7 when there is none,
  otherwise the week difference to the latest of them times 7, passed through the chain
  of comparisons of the source (every branch returns the day count itself).
\<close>

definition calculate_rest_days :: "game list \<Rightarrow> string \<Rightarrow> int \<Rightarrow> int" where
  "calculate_rest_days games_df team current_week =
     (let home_games = filter (\<lambda>g. home_team g = team) games_df;
          away_games = filter (\<lambda>g. away_team g = team) games_df;
          team_games = sort_key week (home_games @ away_games);
          previous_games = filter (\<lambda>g. week g < current_week) team_games
      in if previous_games = [] then 7
         else
           (let last_game_week = Max (set (map week previous_games));
                days_between_weeks = (current_week - last_game_week) * 7
            in if days_between_weeks = 7 then 7
               else if days_between_weeks = 6 then 6
               else if days_between_weeks = 10 then 10
               else if days_between_weeks = 14 then 14
               else days_between_weeks))"









section \<open>Situational features: market fields and opponent strength (situational.py)\<close>

text \<open>
  \<open>_calculate_basic_situational_features\<close>: the games up to the given week, and for each
  of them one dict for the home team and one for the away team (spread negated).
\<close>

definition calculate_basic_situational_features :: "game list \<Rightarrow> int \<Rightarrow> int \<Rightarrow> dataframe" where
  "calculate_basic_situational_features schedules_df season_no week_no =
     (let games_df = filter (\<lambda>g. week g \<le> week_no) schedules_df
      in DataFrame (concat (map
           (\<lambda>game.
              (let home_rest_days = calculate_rest_days games_df (home_team game) (week game);
                   away_rest_days = calculate_rest_days games_df (away_team game) (week game);
                   spread_close = spread_line game;
                   total_close = total_line game;
                   moneyline_close = moneyline game
               in [[(''season'', CInt (season game)),
                    (''week'', CInt (week game)),
                    (''game_id'', CStr (game_id game)),
                    (''team'', CStr (home_team game)),
                    (''opponent'', CStr (away_team game)),
                    (''situational_home'', CBool True),
                    (''situational_rest_days'', CInt home_rest_days),
                    (''situational_spread_close'', cell_of_real_opt spread_close),
                    (''total_close'', cell_of_real_opt total_close),
                    (''moneyline_close'', cell_of_real_opt moneyline_close),
                    (''opponent_rest_days'', CInt away_rest_days)],
                   [(''season'', CInt (season game)),
                    (''week'', CInt (week game)),
                    (''game_id'', CStr (game_id game)),
                    (''team'', CStr (away_team game)),
                    (''opponent'', CStr (home_team game)),
                    (''situational_home'', CBool False),
                    (''situational_rest_days'', CInt away_rest_days),
                    (''situational_spread_close'',
                       cell_of_real_opt (map_option uminus spread_close)),
                    (''total_close'', cell_of_real_opt total_close),
                    (''moneyline_close'', cell_of_real_opt moneyline_close),
                    (''opponent_rest_days'', CInt home_rest_days)]]))
           games_df)))"

text \<open>\<open>_calculate_sos_factor\<close>, on numbers.\<close>

definition calculate_sos_factor :: "real \<Rightarrow> real \<Rightarrow> real \<Rightarrow> real \<Rightarrow> real" where
  "calculate_sos_factor opponent_off_epa opponent_def_epa_allowed
       opponent_off_success opponent_def_success_allowed =
     (let off_strength = opponent_off_epa;
          def_strength = - opponent_def_epa_allowed;
          off_success_factor = opponent_off_success;
          def_success_factor = 1.0 - opponent_def_success_allowed;
          combined_strength =
            (off_strength + def_strength + off_success_factor + def_success_factor) / 4;
          sos_factor = 1.0 + (combined_strength * 0.1)
      in max 0.5 (min 2.0 sos_factor))"

text \<open>
  The four values reach \<open>_calculate_sos_factor\<close> as table cells. A number is used as it
  is (a bool counts as 0 or 1); a string makes the arithmetic raise TypeError; with a
  missing value (NaN) the sum is NaN, and \<open>max(0.5, min(2.0, nan))\<close> is 2.0 in Python.
\<close>

fun cell_float :: "cell \<Rightarrow> error + real option" where
  "cell_float (CReal x) = Inr (Some x)"
| "cell_float (CInt i) = Inr (Some (real_of_int i))"
| "cell_float (CBool b) = Inr (Some (if b then 1 else 0))"
| "cell_float CNone = Inr None"
| "cell_float (CStr s) = Inl TypeError"

definition sos_factor_of_cells :: "cell \<Rightarrow> cell \<Rightarrow> cell \<Rightarrow> cell \<Rightarrow> error + real" where
  "sos_factor_of_cells a b c d =
     bind_result (cell_float a) (\<lambda>a'. bind_result (cell_float b) (\<lambda>b'.
     bind_result (cell_float c) (\<lambda>c'. bind_result (cell_float d) (\<lambda>d'.
       (case (a', b', c', d') of
          (Some x, Some y, Some z, Some u) \<Rightarrow> Inr (calculate_sos_factor x y z u)
        | _ \<Rightarrow> Inr 2.0)))))"

text \<open>
  The body of the loop of \<open>_calculate_sos_adjustments\<close> for one situational row: the
  team's and the opponent's rolling rows of the game's week are looked up; when either
  is absent the neutral row is written.
\<close>

definition sos_row :: "dataframe \<Rightarrow> row \<Rightarrow> error + row" where
  "sos_row rolling_features r =
     bind_result (series_get r ''team'') (\<lambda>team.
     bind_result (series_get r ''opponent'') (\<lambda>opponent.
     bind_result (series_get r ''week'') (\<lambda>game_week.
     bind_result (df_where_eq2 rolling_features ''team'' team ''week'' game_week)
       (\<lambda>team_rolling.
     bind_result (df_where_eq2 rolling_features ''team'' opponent ''week'' game_week)
       (\<lambda>opponent_rolling.
     bind_result (series_get r ''season'') (\<lambda>row_season.
     bind_result (series_get r ''week'') (\<lambda>row_week.
       if df_empty team_rolling \<or> df_empty opponent_rolling
       then Inr [(''season'', row_season), (''week'', row_week), (''team'', team),
                 (''opponent_off_epa_l3'', CReal 0),
                 (''opponent_def_epa_allowed_l3'', CReal 0),
                 (''opponent_off_success_l3'', CReal 0),
                 (''opponent_def_success_allowed_l3'', CReal 0),
                 (''sos_adjustment_factor'', CReal 1)]
       else
         (case rows opponent_rolling of
            [] \<Rightarrow> Inl IndexError
          | opponent_data # _ \<Rightarrow>
              (let opponent_off_epa =
                     series_get_default opponent_data ''off_epa_play_l3'' (CReal 0);
                   opponent_def_epa_allowed =
                     series_get_default opponent_data ''def_epa_play_allowed_l3'' (CReal 0);
                   opponent_off_success =
                     series_get_default opponent_data ''off_success_rate_l3'' (CReal 0);
                   opponent_def_success_allowed =
                     series_get_default opponent_data ''def_success_rate_allowed_l3'' (CReal 0)
               in bind_result
                    (sos_factor_of_cells opponent_off_epa opponent_def_epa_allowed
                       opponent_off_success opponent_def_success_allowed)
                    (\<lambda>sos_adjustment_factor.
                       Inr [(''season'', row_season), (''week'', row_week), (''team'', team),
                            (''opponent_off_epa_l3'', opponent_off_epa),
                            (''opponent_def_epa_allowed_l3'', opponent_def_epa_allowed),
                            (''opponent_off_success_l3'', opponent_off_success),
                            (''opponent_def_success_allowed_l3'', opponent_def_success_allowed),
                            (''sos_adjustment_factor'', CReal sos_adjustment_factor)]))))))))))"

text \<open>
  \<open>_calculate_sos_adjustments\<close>; the rolling calculator is the parameter \<open>rolling_calc\<close>
  (\<open>self.rolling_calc.calculate_rolling_features\<close>).
\<close>

definition calculate_sos_adjustments ::
  "(int \<Rightarrow> int \<Rightarrow> error + dataframe) \<Rightarrow> dataframe \<Rightarrow> int \<Rightarrow> int \<Rightarrow> error + dataframe" where
  "calculate_sos_adjustments rolling_calc situational_features season_no week_no =
     bind_result (rolling_calc season_no week_no) (\<lambda>rolling_features.
     bind_result (map_result (sos_row rolling_features) (rows situational_features))
       (\<lambda>sos_features. Inr (DataFrame sos_features)))"

text \<open>
  \<open>pd.merge(left, right, on=keys, how='left')\<close> for frames whose only common columns are
  the keys: KeyError for a key one of the frames lacks; otherwise every left row is
  joined with each right row of equal keys, or filled with missing values when there is
  none.
\<close>

definition merge_left :: "dataframe \<Rightarrow> dataframe \<Rightarrow> string list \<Rightarrow> error + dataframe" where
  "merge_left left right on_keys =
     (case filter (\<lambda>k. k \<notin> set (columns right) \<or> k \<notin> set (columns left)) on_keys of
        k # _ \<Rightarrow> Inl (KeyError k)
      | [] \<Rightarrow>
          (let extra = filter (\<lambda>c. c \<notin> set on_keys) (columns right)
           in Inr \<lparr>columns = columns left @ extra,
                   rows = concat (map
                     (\<lambda>l. case filter (\<lambda>r. list_all (\<lambda>k. map_of r k = map_of l k) on_keys)
                                  (rows right) of
                            [] \<Rightarrow> [l @ map (\<lambda>c. (c, CNone)) extra]
                          | ms \<Rightarrow> map (\<lambda>r. l @ map (\<lambda>c. (c, series_get_default r c CNone)) extra)
                                     ms)
                     (rows left))\<rparr>))"

text \<open>
  \<open>calculate_situational_features\<close>; the schedule reader is the parameter
  \<open>load_schedules\<close>.
\<close>

definition calculate_situational_features ::
  "(int \<Rightarrow> error + game list) \<Rightarrow> (int \<Rightarrow> int \<Rightarrow> error + dataframe) \<Rightarrow> int \<Rightarrow> int
     \<Rightarrow> error + dataframe" where
  "calculate_situational_features load_schedules rolling_calc season_no week_no =
     (if season_no < 2000 \<or> season_no > 2030 then Inl (ValueError ''Invalid season'')
      else if week_no < 1 \<or> week_no > 22 then Inl (ValueError ''Invalid week'')
      else
        bind_result (load_schedules season_no) (\<lambda>schedules_df.
          (let situational_features =
                 calculate_basic_situational_features schedules_df season_no week_no
           in bind_result
                (calculate_sos_adjustments rolling_calc situational_features season_no week_no)
                (\<lambda>sos_features.
                   merge_left situational_features sos_features
                     [''season'', ''week'', ''team'']))))"

subsection \<open>Properties of the opponent-strength factor\<close>








lemma columns_DataFrame: "set (columns (DataFrame data)) = (\<Union>r \<in> set data. fst ` set r)"
  by (simp add: DataFrame_def set_unique)



section \<open>Feature assembler (assemble.py)\<close>

text \<open>
  \<open>_combine_team_features\<close>: the basic game info, every rolling column but the keys
  under the prefix \<open>rolling_\<close>, every situational column but the keys under the prefix
  \<open>situational_\<close>, the market fields and the outcome fields of the game.
\<close>

definition combine_team_features :: "row \<Rightarrow> row \<Rightarrow> game \<Rightarrow> string \<Rightarrow> error + row" where
  "combine_team_features rolling_data situational_data game_data team_type =
     bind_result (series_get rolling_data ''team'') (\<lambda>team.
     bind_result (series_get situational_data ''opponent'') (\<lambda>opponent.
     bind_result (series_get situational_data ''home'') (\<lambda>home.
       (let features = [(''season'', CInt (season game_data)),
                        (''week'', CInt (week game_data)),
                        (''game_id'', CStr (game_id game_data)),
                        (''team'', team),
                        (''opponent'', opponent),
                        (''home'', home),
                        (''team_type'', CStr team_type)];
            rolling_cols = filter (\<lambda>(col, v). col \<notin> set [''season'', ''week'', ''team''])
                             rolling_data;
            features = fold (\<lambda>(col, v). AList.update (''rolling_'' @ col) v)
                         rolling_cols features;
            situational_cols =
              filter (\<lambda>(col, v). col \<notin> set [''season'', ''week'', ''team'', ''opponent''])
                situational_data;
            features = fold (\<lambda>(col, v). AList.update (''situational_'' @ col) v)
                         situational_cols features;
            features = AList.update ''market_spread_close''
                         (cell_of_real_opt (spread_line game_data)) features;
            features = AList.update ''market_total_close''
                         (cell_of_real_opt (total_line game_data)) features;
            features = AList.update ''market_moneyline_close''
                         (cell_of_real_opt (moneyline game_data)) features;
            features = AList.update ''home_score''
                         (cell_of_real_opt (home_score game_data)) features;
            features = AList.update ''away_score''
                         (cell_of_real_opt (away_score game_data)) features;
            features = AList.update ''result''
                         (cell_of_real_opt (result game_data)) features
        in Inr features))))"

text \<open>
  The part of \<open>_assemble_game_features\<close> written once for the home team and once for the
  away team: the rows of the team in both tables, and, when neither selection is empty,
  the combination of the first row of each (\<open>iloc[0]\<close>).
\<close>

definition team_game_features ::
  "dataframe \<Rightarrow> dataframe \<Rightarrow> game \<Rightarrow> string \<Rightarrow> string \<Rightarrow> error + row list" where
  "team_game_features rolling_features situational_features game team team_type =
     bind_result (df_where_eq rolling_features ''team'' (CStr team)) (\<lambda>team_rolling.
     bind_result (df_where_eq situational_features ''team'' (CStr team)) (\<lambda>team_situational.
       if \<not> df_empty team_rolling \<and> \<not> df_empty team_situational
       then (case (rows team_rolling, rows team_situational) of
               (rolling_data # _, situational_data # _) \<Rightarrow>
                 bind_result
                   (combine_team_features rolling_data situational_data game team_type)
                   (\<lambda>features. Inr [features])
             | _ \<Rightarrow> Inl IndexError)
       else Inr []))"

text \<open>
  \<open>_assemble_game_features\<close>. Every exception is caught and turns into \<open>None\<close>; so does
  an empty list of rows. The two calculators are parameters.
\<close>

definition assemble_game_features ::
  "(int \<Rightarrow> int \<Rightarrow> error + dataframe) \<Rightarrow> (int \<Rightarrow> int \<Rightarrow> error + dataframe) \<Rightarrow> game \<Rightarrow> int \<Rightarrow> int
     \<Rightarrow> row list option" where
  "assemble_game_features rolling_calc situational_calc game season_no week_no =
     (case
        bind_result (rolling_calc season_no week_no) (\<lambda>rolling_features.
        bind_result (situational_calc season_no week_no) (\<lambda>situational_features.
        bind_result (team_game_features rolling_features situational_features game
                       (home_team game) ''home'') (\<lambda>home_part.
        bind_result (team_game_features rolling_features situational_features game
                       (away_team game) ''away'') (\<lambda>away_part.
          Inr (home_part @ away_part)))))
      of Inl e \<Rightarrow> None
       | Inr game_features \<Rightarrow> if game_features = [] then None else Some game_features)"

text \<open>
  The body of the loop of \<open>_add_training_labels\<close> for one row: the first schedule row
  of the same \<open>game_id\<close>; the label from the \<open>result\<close> column when it is known,
  otherwise from the two scores when both are known, otherwise no change.
\<close>

definition label_row :: "game list \<Rightarrow> row \<Rightarrow> error + row" where
  "label_row schedules_df r =
     bind_result (series_get r ''game_id'') (\<lambda>gid.
     bind_result (series_get r ''team'') (\<lambda>team.
     bind_result (series_get r ''home'') (\<lambda>is_home.
       (case filter (\<lambda>g. CStr (game_id g) = gid) schedules_df of
          [] \<Rightarrow> Inr r
        | game_data # _ \<Rightarrow>
            (case result game_data of
               Some res \<Rightarrow>
                 (if truthy is_home
                  then Inr (AList.update ''label_win'' (CInt (if res > 0 then 1 else 0)) r)
                  else Inr (AList.update ''label_win'' (CInt (if res < 0 then 1 else 0)) r))
             | None \<Rightarrow>
                 (case (home_score game_data, away_score game_data) of
                    (Some home_sc, Some away_sc) \<Rightarrow>
                      (if truthy is_home
                       then Inr (AList.update ''label_win''
                                   (CInt (if home_sc > away_sc then 1 else 0)) r)
                       else Inr (AList.update ''label_win''
                                   (CInt (if away_sc > home_sc then 1 else 0)) r))
                  | _ \<Rightarrow> Inr r))))))"

definition add_training_labels :: "dataframe \<Rightarrow> game list \<Rightarrow> error + dataframe" where
  "add_training_labels modeling_df schedules_df =
     (let modeling_df = set_column modeling_df ''label_win'' CNone
      in bind_result (map_result (label_row schedules_df) (rows modeling_df))
           (\<lambda>labelled. Inr (modeling_df\<lparr>rows := labelled\<rparr>)))"

definition future_cols :: "string list" where
  "future_cols = [''home_score'', ''away_score'', ''result'']"

definition ensure_no_leakage :: "dataframe \<Rightarrow> dataframe" where
  "ensure_no_leakage modeling_df =
     fold (\<lambda>col df. if col \<in> set (columns df) then drop_column df col else df)
       future_cols modeling_df"

text \<open>
  \<open>_load_all_schedules\<close>: the seasons that load are concatenated, the others are
  skipped; ValueError when none loads. (The week arguments are not used by the source.)
\<close>

definition load_all_schedules ::
  "(int \<Rightarrow> error + game list) \<Rightarrow> int \<Rightarrow> int \<Rightarrow> error + game list" where
  "load_all_schedules load_schedules start_season end_season =
     (let all_schedules =
            List.map_filter
              (\<lambda>season_no. case load_schedules season_no of
                              Inl e \<Rightarrow> None
                            | Inr season_schedules \<Rightarrow> Some season_schedules)
              [start_season..end_season]
      in if all_schedules = [] then Inl (ValueError ''No schedules data available'')
         else Inr (concat all_schedules))"

definition assemble_modeling_table ::
  "(int \<Rightarrow> error + game list) \<Rightarrow> (int \<Rightarrow> int \<Rightarrow> error + dataframe)
     \<Rightarrow> (int \<Rightarrow> int \<Rightarrow> error + dataframe) \<Rightarrow> int \<Rightarrow> int \<Rightarrow> bool \<Rightarrow> error + dataframe" where
  "assemble_modeling_table load_schedules rolling_calc situational_calc
       season_no week_no use_historical_data =
     (let start_season = (if use_historical_data then 2020 else season_no)
      in bind_result (load_all_schedules load_schedules start_season season_no)
           (\<lambda>all_schedules.
              (let modeling_data = concat (map
                     (\<lambda>game.
                        if season game > season_no
                           \<or> (season game = season_no \<and> week game > week_no)
                        then []
                        else (case assemble_game_features rolling_calc situational_calc game
                                     (season game) (week game) of
                                None \<Rightarrow> []
                              | Some game_features \<Rightarrow> game_features))
                     all_schedules);
                   modeling_df = DataFrame modeling_data
               in bind_result (add_training_labels modeling_df all_schedules)
                    (\<lambda>modeling_df. Inr (ensure_no_leakage modeling_df)))))"

definition get_feature_columns :: "dataframe \<Rightarrow> string list" where
  "get_feature_columns modeling_df =
     filter (\<lambda>col. col \<notin> set [''season'', ''week'', ''game_id'', ''team'', ''opponent'',
                                ''home'', ''team_type'', ''label_win'', ''home_score'',
                                ''away_score'', ''result''])
       (columns modeling_df)"

subsection \<open>Training labels\<close>


definition label_cell :: "bool option \<Rightarrow> cell" where
  "label_cell won = (case won of None \<Rightarrow> CNone | Some w \<Rightarrow> CInt (if w then 1 else 0))"

lemma map_result_Inr:
  "map_result f xs = Inr ys \<Longrightarrow> list_all2 (\<lambda>x y. f x = Inr y) xs ys"
proof (induction xs arbitrary: ys)
  case Nil
  then show ?case by simp
next
  case (Cons x xs)
  then show ?case
    by (auto split: sum.splits)
qed



lemma label_row_unlabelled:
  assumes "map_of r ''game_id'' = Some gid" "filter (\<lambda>g. CStr (game_id g) = gid) schedules_df = []"
    "label_row schedules_df r = Inr r'"
  shows "r' = r"
  using assms
  by (auto simp: label_row_def bind_result_def series_get_def
      split: option.splits if_splits)


text \<open>
  A finished week-1 game, Kansas City 24 at home against Buffalo 17, with no result
  column, and the two modeling rows of that game before labelling.
\<close>

definition kc_buf_game :: game where
  "kc_buf_game = \<lparr>game_id = ''2023_01_BUF_KC'', season = 2023, week = 1,
      home_team = ''KC'', away_team = ''BUF'', spread_line = Some 3, total_line = Some 47,
      moneyline = None, home_score = Some 24, away_score = Some 17, result = None\<rparr>"




subsection \<open>No outcome column leaves the assembler\<close>

text \<open>
  A row without its outcome entries, and frames whose rows only use the frame's columns
  (every frame made by \<open>pd.DataFrame\<close> is one).
\<close>

definition strip_outcome :: "row \<Rightarrow> row" where
  "strip_outcome r = filter (\<lambda>(k, v). k \<notin> set future_cols) r"

definition well_formed :: "dataframe \<Rightarrow> bool" where
  "well_formed df = list_all (\<lambda>r. list_all (\<lambda>(k, v). k \<in> set (columns df)) r) (rows df)"

lemma well_formed_iff: "well_formed df \<longleftrightarrow> (\<forall>r \<in> set (rows df). fst ` set r \<subseteq> set (columns df))"
  by (simp add: well_formed_def list_all_iff subset_iff image_iff) fastforce

lemma delete_absent: "k \<notin> fst ` set r \<Longrightarrow> AList.delete k r = r"
  by (induction r) auto

lemma drop_step_columns:
  "columns (if col \<in> set (columns df) then drop_column df col else df)
     = filter (\<lambda>c. c \<noteq> col) (columns df)"
proof (cases "col \<in> set (columns df)")
  case True
  then show ?thesis by (simp add: drop_column_def)
next
  case False
  then have "filter (\<lambda>c. c \<noteq> col) (columns df) = columns df"
    by (simp add: filter_id_conv) blast
  with False show ?thesis by simp
qed

lemma drop_step_rows:
  assumes "well_formed df"
  shows "rows (if col \<in> set (columns df) then drop_column df col else df)
     = map (AList.delete col) (rows df)"
proof (cases "col \<in> set (columns df)")
  case True
  then show ?thesis by (simp add: drop_column_def)
next
  case False
  have "AList.delete col r = r" if "r \<in> set (rows df)" for r
    using assms that False by (intro delete_absent) (auto simp: well_formed_iff)
  then have "map (AList.delete col) (rows df) = rows df"
    by (simp add: map_idI)
  with False show ?thesis by simp
qed

lemma drop_step_well_formed:
  assumes "well_formed df"
  shows "well_formed (if col \<in> set (columns df) then drop_column df col else df)"
  using assms
  by (auto simp: well_formed_iff drop_column_def AList.delete_eq)

lemma fold_drop_columns:
  "columns (fold (\<lambda>col df. if col \<in> set (columns df) then drop_column df col else df) cols df)
     = filter (\<lambda>c. c \<notin> set cols) (columns df)"
proof (induction cols arbitrary: df)
  case Nil
  show ?case by simp
next
  case (Cons c cs)
  let ?d = "if c \<in> set (columns df) then drop_column df c else df"
  have "columns (fold (\<lambda>col df. if col \<in> set (columns df) then drop_column df col else df)
          (c # cs) df)
      = filter (\<lambda>x. x \<notin> set cs) (columns ?d)"
    using Cons.IH [of ?d] by simp
  also have "\<dots> = filter (\<lambda>x. x \<notin> set cs) (filter (\<lambda>x. x \<noteq> c) (columns df))"
    by (simp only: drop_step_columns)
  also have "\<dots> = filter (\<lambda>x. x \<notin> set (c # cs)) (columns df)"
    unfolding filter_filter by (rule filter_cong) auto
  finally show ?case .
qed

lemma fold_drop_rows:
  assumes "well_formed df"
  shows "rows (fold (\<lambda>col df. if col \<in> set (columns df) then drop_column df col else df) cols df)
     = map (filter (\<lambda>(k, v). k \<notin> set cols)) (rows df)"
  using assms
proof (induction cols arbitrary: df)
  case Nil
  show ?case by simp
next
  case (Cons c cs)
  let ?d = "if c \<in> set (columns df) then drop_column df c else df"
  have wf: "well_formed ?d"
    using Cons.prems by (rule drop_step_well_formed)
  have "rows (fold (\<lambda>col df. if col \<in> set (columns df) then drop_column df col else df)
          (c # cs) df)
      = map (filter (\<lambda>(k, v). k \<notin> set cs)) (rows ?d)"
    using Cons.IH [OF wf] by simp
  also have "\<dots> = map (filter (\<lambda>(k, v). k \<notin> set cs)) (map (AList.delete c) (rows df))"
    by (simp only: drop_step_rows [OF Cons.prems])
  also have "\<dots> = map (filter (\<lambda>(k, v). k \<notin> set (c # cs))) (rows df)"
    unfolding map_map AList.delete_eq comp_def filter_filter
    by (intro map_cong filter_cong refl) auto
  finally show ?case .
qed

lemma ensure_no_leakage_columns:
  "columns (ensure_no_leakage df) = filter (\<lambda>c. c \<notin> set future_cols) (columns df)"
  unfolding ensure_no_leakage_def by (rule fold_drop_columns)

lemma ensure_no_leakage_rows:
  assumes "well_formed df"
  shows "rows (ensure_no_leakage df) = map strip_outcome (rows df)"
proof -
  have "strip_outcome = filter (\<lambda>(k, v). k \<notin> set future_cols)"
    by (rule ext) (simp add: strip_outcome_def)
  then show ?thesis
    unfolding ensure_no_leakage_def using fold_drop_rows [OF assms] by simp
qed

lemma strip_outcome_lookup:
  "c \<in> set future_cols \<Longrightarrow> map_of (strip_outcome r) c = None"
  by (auto simp: strip_outcome_def map_of_eq_None_iff)

lemma strip_outcome_update:
  "k \<in> set future_cols \<Longrightarrow> strip_outcome (AList.update k v r) = strip_outcome r"
  by (induction r) (auto simp: strip_outcome_def)

lemma combine_ignores_outcome:
  "map_sum id strip_outcome (combine_team_features rd sd g tt)
   = map_sum id strip_outcome
       (combine_team_features rd sd (g\<lparr>home_score := hs, away_score := as, result := res\<rparr>) tt)"
  by (simp add: combine_team_features_def bind_result_def Let_def strip_outcome_update
      future_cols_def split: sum.splits)

lemma rows_DataFrame: "rows (DataFrame data) = data"
  by (simp add: DataFrame_def)

lemma well_formed_DataFrame: "well_formed (DataFrame data)"
  unfolding well_formed_iff columns_DataFrame rows_DataFrame by blast

lemma update_keys_subset: "fst ` set (AList.update k v r) \<subseteq> insert k (fst ` set r)"
  by (induction r) auto

lemma well_formed_set_column:
  assumes "well_formed df"
  shows "well_formed (set_column df c v)"
  unfolding well_formed_iff
proof
  fix r assume "r \<in> set (rows (set_column df c v))"
  then obtain r0 where r0: "r0 \<in> set (rows df)" "r = AList.update c v r0"
    by (auto simp: set_column_def)
  have "fst ` set r \<subseteq> insert c (fst ` set r0)"
    unfolding r0(2) by (rule update_keys_subset)
  also have "\<dots> \<subseteq> insert c (set (columns df))"
    using assms r0(1) unfolding well_formed_iff by blast
  also have "\<dots> \<subseteq> set (columns (set_column df c v))"
    by (auto simp: set_column_def)
  finally show "fst ` set r \<subseteq> set (columns (set_column df c v))" .
qed

lemma label_row_keys:
  assumes "label_row schedules_df r = Inr r'"
  shows "fst ` set r' \<subseteq> insert ''label_win'' (fst ` set r)"
proof -
  from assms have "r' = r \<or> (\<exists>v. r' = AList.update ''label_win'' v r)"
    by (auto simp: label_row_def bind_result_def split: sum.splits list.splits option.splits
        if_splits)
  then show ?thesis
    using update_keys_subset [of "''label_win''" _ r] by auto
qed

lemma add_training_labels_well_formed:
  assumes "add_training_labels df schedules_df = Inr out" "well_formed df"
  shows "well_formed out"
proof -
  let ?df = "set_column df ''label_win'' CNone"
  from assms(1) have all2: "list_all2 (\<lambda>x y. label_row schedules_df x = Inr y) (rows ?df) (rows out)"
    and cols: "columns out = columns ?df"
    by (auto simp: add_training_labels_def bind_result_def Let_def
        split: sum.splits dest: map_result_Inr)
  have label: "''label_win'' \<in> set (columns ?df)"
    by (simp add: set_column_def)
  have wf: "well_formed ?df"
    using assms(2) by (rule well_formed_set_column)
  show ?thesis
    unfolding well_formed_iff
  proof
    fix r' assume "r' \<in> set (rows out)"
    then obtain i where i: "i < length (rows out)" "rows out ! i = r'"
      by (auto simp: in_set_conv_nth)
    have len: "length (rows ?df) = length (rows out)"
      using all2 by (rule list_all2_lengthD)
    have "label_row schedules_df (rows ?df ! i) = Inr (rows out ! i)"
      using all2 i(1) by (rule list_all2_nthD2)
    moreover have "rows ?df ! i \<in> set (rows ?df)"
      using i(1) len by simp
    ultimately obtain r where r: "r \<in> set (rows ?df)" "label_row schedules_df r = Inr r'"
      using i(2) by blast
    have "\<forall>r \<in> set (rows ?df). fst ` set r \<subseteq> set (columns ?df)"
      using wf by (simp only: well_formed_iff)
    then have "fst ` set r \<subseteq> set (columns ?df)"
      using r(1) by (rule bspec)
    with label have "insert ''label_win'' (fst ` set r) \<subseteq> set (columns ?df)"
      by (rule insert_subsetI)
    with label_row_keys [OF r(2)] have "fst ` set r' \<subseteq> set (columns ?df)"
      by (rule subset_trans)
    then show "fst ` set r' \<subseteq> set (columns out)"
      by (simp only: cols)
  qed
qed

lemma assemble_modeling_table_shape:
  assumes "assemble_modeling_table load_schedules rolling_calc situational_calc
             season_no week_no use_historical_data = Inr out"
  shows "\<exists>modeling_data all_schedules labelled.
           add_training_labels (DataFrame modeling_data) all_schedules = Inr labelled
           \<and> out = ensure_no_leakage labelled"
proof -
  obtain start where start: "start = (if use_historical_data then 2020 else season_no)"
    by simp
  show ?thesis
  proof (cases "load_all_schedules load_schedules start season_no")
    case (Inl e)
    with assms show ?thesis
      by (simp add: assemble_modeling_table_def bind_result_def start)
  next
    case (Inr all_schedules)
    define modeling_data where "modeling_data = concat (map
       (\<lambda>game. if season game > season_no \<or> (season game = season_no \<and> week game > week_no)
          then []
          else (case assemble_game_features rolling_calc situational_calc game
                       (season game) (week game) of
                  None \<Rightarrow> [] | Some game_features \<Rightarrow> game_features))
       all_schedules)"
    from assms Inr have run:
      "bind_result (add_training_labels (DataFrame modeling_data) all_schedules)
         (\<lambda>modeling_df. Inr (ensure_no_leakage modeling_df)) = Inr out"
      by (simp add: assemble_modeling_table_def bind_result_def start modeling_data_def)
    then obtain labelled where
      "add_training_labels (DataFrame modeling_data) all_schedules = Inr labelled"
      "out = ensure_no_leakage labelled"
      by (cases "add_training_labels (DataFrame modeling_data) all_schedules")
         (auto simp: bind_result_def)
    then show ?thesis by blast
  qed
qed

lemma feature_columns_exclude:
  "set (get_feature_columns out) \<inter> (set future_cols \<union> {''label_win''}) = {}"
proof -
  have "c \<notin> set future_cols \<union> {''label_win''}" if "c \<in> set (get_feature_columns out)" for c
    using that unfolding get_feature_columns_def future_cols_def set_filter
    by simp
  then show ?thesis by blast
qed

text \<open>
  Claim C1. \<open>_ensure_no_leakage\<close> removes exactly the columns \<open>home_score\<close>,
  \<open>away_score\<close> and \<open>result\<close> and leaves every other column and entry as it was; no
  table returned by \<open>assemble_modeling_table\<close> has one of these columns or such an entry
  in a row, and none of them (nor the label) is listed as a feature column; and apart
  from these three entries the row built by \<open>_combine_team_features\<close> does not depend
  on the outcome fields of the game.
\<close>

theorem no_outcome_columns_emitted:
  "columns (ensure_no_leakage df) = filter (\<lambda>c. c \<notin> set future_cols) (columns df)
   \<and> ((\<forall>r \<in> set (rows df). fst ` set r \<subseteq> set (columns df)) \<longrightarrow>
        rows (ensure_no_leakage df) = map (filter (\<lambda>(k, v). k \<notin> set future_cols)) (rows df))
   \<and> (assemble_modeling_table load_schedules rolling_calc situational_calc
          season_no week_no use_historical_data = Inr out \<longrightarrow>
        (\<forall>c \<in> set future_cols.
           c \<notin> set (columns out) \<and> (\<forall>r \<in> set (rows out). map_of r c = None))
        \<and> set (get_feature_columns out) \<inter> (set future_cols \<union> {''label_win''}) = {})
   \<and> map_sum id (filter (\<lambda>(k, v). k \<notin> set future_cols))
        (combine_team_features rolling_data situational_data game_data team_type)
       = map_sum id (filter (\<lambda>(k, v). k \<notin> set future_cols))
           (combine_team_features rolling_data situational_data
              (game_data\<lparr>home_score := hs, away_score := as, result := res\<rparr>) team_type)"
proof (intro conjI impI)
  have strip: "strip_outcome = filter (\<lambda>(k, v). k \<notin> set future_cols)"
    by (rule ext) (simp add: strip_outcome_def)
  show "columns (ensure_no_leakage df) = filter (\<lambda>c. c \<notin> set future_cols) (columns df)"
    by (rule ensure_no_leakage_columns)
  show "rows (ensure_no_leakage df) = map (filter (\<lambda>(k, v). k \<notin> set future_cols)) (rows df)"
    if "\<forall>r \<in> set (rows df). fst ` set r \<subseteq> set (columns df)"
    using ensure_no_leakage_rows [of df] that by (simp add: well_formed_iff strip)
  show "map_sum id (filter (\<lambda>(k, v). k \<notin> set future_cols))
        (combine_team_features rolling_data situational_data game_data team_type)
       = map_sum id (filter (\<lambda>(k, v). k \<notin> set future_cols))
           (combine_team_features rolling_data situational_data
              (game_data\<lparr>home_score := hs, away_score := as, result := res\<rparr>) team_type)"
    unfolding strip [symmetric] by (rule combine_ignores_outcome)
  {
    assume run: "assemble_modeling_table load_schedules rolling_calc situational_calc
          season_no week_no use_historical_data = Inr out"
    from assemble_modeling_table_shape [OF run]
    obtain modeling_data all_schedules labelled where
      lab: "add_training_labels (DataFrame modeling_data) all_schedules = Inr labelled"
      and out: "out = ensure_no_leakage labelled"
      by blast
    have wf: "well_formed labelled"
      using lab well_formed_DataFrame by (rule add_training_labels_well_formed)
    show "\<forall>c \<in> set future_cols.
        c \<notin> set (columns out) \<and> (\<forall>r \<in> set (rows out). map_of r c = None)"
    proof
      fix c assume c: "c \<in> set future_cols"
      have "c \<notin> set (columns out)"
        unfolding out ensure_no_leakage_columns using c by simp
      moreover have "\<forall>r \<in> set (rows out). map_of r c = None"
        unfolding out ensure_no_leakage_rows [OF wf]
        using strip_outcome_lookup [OF c] by simp
      ultimately show "c \<notin> set (columns out) \<and> (\<forall>r \<in> set (rows out). map_of r c = None)"
        by (rule conjI)
    qed
    show "set (get_feature_columns out) \<inter> (set future_cols \<union> {''label_win''}) = {}"
      by (rule feature_columns_exclude)
  }
qed

text \<open>
  Two small calculators standing for \<open>rolling_calc\<close> and \<open>situational_calc\<close> (tables
  with one row per team, the situational one carrying the \<open>home\<close> column that
  \<open>_combine_team_features\<close> reads), a schedule reader that knows season 2023 only, the
  table the assembler makes from them, and a reader whose only game lies in week 5.
\<close>

definition rolling_stub :: "int \<Rightarrow> int \<Rightarrow> error + dataframe" where
  "rolling_stub season_no week_no =
     Inr (DataFrame
       [[(''season'', CInt season_no), (''week'', CInt 1), (''team'', CStr ''KC''),
         (''off_epa_play_l3'', CReal 0)],
        [(''season'', CInt season_no), (''week'', CInt 1), (''team'', CStr ''BUF''),
         (''off_epa_play_l3'', CReal 0)]])"

definition situational_stub :: "int \<Rightarrow> int \<Rightarrow> error + dataframe" where
  "situational_stub season_no week_no =
     Inr (DataFrame
       [[(''season'', CInt season_no), (''week'', CInt 1), (''team'', CStr ''KC''),
         (''opponent'', CStr ''BUF''), (''home'', CBool True), (''rest_days'', CInt 7)],
        [(''season'', CInt season_no), (''week'', CInt 1), (''team'', CStr ''BUF''),
         (''opponent'', CStr ''KC''), (''home'', CBool False), (''rest_days'', CInt 7)]])"

definition load_stub :: "int \<Rightarrow> error + game list" where
  "load_stub season_no = (if season_no = 2023 then Inr [kc_buf_game] else Inl (ValueError ''no data''))"

definition stub_table :: dataframe where
  "stub_table =
     \<lparr>columns =
        [''season'', ''week'', ''game_id'', ''team'', ''opponent'',
         ''home'', ''team_type'', ''rolling_off_epa_play_l3'',
         ''situational_home'', ''situational_rest_days'',
         ''market_spread_close'', ''market_total_close'',
         ''market_moneyline_close'', ''label_win''],
      rows =
        [[(''season'', CInt 2023), (''week'', CInt 1),
          (''game_id'', CStr ''2023_01_BUF_KC''), (''team'', CStr ''KC''),
          (''opponent'', CStr ''BUF''), (''home'', CBool True),
          (''team_type'', CStr ''home''),
          (''rolling_off_epa_play_l3'', CReal 0),
          (''situational_home'', CBool True),
          (''situational_rest_days'', CInt 7),
          (''market_spread_close'', CReal 3),
          (''market_total_close'', CReal 47),
          (''market_moneyline_close'', CNone), (''label_win'', CInt 1)],
         [(''season'', CInt 2023), (''week'', CInt 1),
          (''game_id'', CStr ''2023_01_BUF_KC''),
          (''team'', CStr ''BUF''), (''opponent'', CStr ''KC''),
          (''home'', CBool False), (''team_type'', CStr ''away''),
          (''rolling_off_epa_play_l3'', CReal 0),
          (''situational_home'', CBool False),
          (''situational_rest_days'', CInt 7),
          (''market_spread_close'', CReal 3),
          (''market_total_close'', CReal 47),
          (''market_moneyline_close'', CNone), (''label_win'', CInt 0)]]\<rparr>"

definition load_future :: "int \<Rightarrow> error + game list" where
  "load_future season_no = Inr [kc_buf_game\<lparr>season := season_no, week := 5\<rparr>]"

lemma stub_run:
  "assemble_modeling_table load_stub rolling_stub situational_stub 2023 1 False = Inr stub_table"
  by (simp add: assemble_modeling_table_def load_all_schedules_def load_stub_def
      List.map_filter_def bind_result_def kc_buf_game_def assemble_game_features_def
      rolling_stub_def situational_stub_def team_game_features_def DataFrame_def unique_def
      df_where_eq_def df_empty_def combine_team_features_def series_get_def
      cell_of_real_opt_def add_training_labels_def set_column_def label_row_def
      ensure_no_leakage_def future_cols_def drop_column_def Let_def stub_table_def)

theorem no_outcome_columns_emitted_witness:
  "assemble_modeling_table load_stub rolling_stub situational_stub 2023 1 False = Inr stub_table
   \<and> ''home_score'' \<notin> set (columns stub_table)
   \<and> ''away_score'' \<notin> set (columns stub_table)
   \<and> ''result'' \<notin> set (columns stub_table)
   \<and> map (\<lambda>r. map_of r ''label_win'') (rows stub_table) = [Some (CInt 1), Some (CInt 0)]"
proof -
  note T = no_outcome_columns_emitted [of stub_table load_stub rolling_stub situational_stub
      2023 1 False stub_table]
  from T stub_run have "\<forall>c \<in> set future_cols. c \<notin> set (columns stub_table)"
    by blast
  then have "''home_score'' \<notin> set (columns stub_table)
      \<and> ''away_score'' \<notin> set (columns stub_table)
      \<and> ''result'' \<notin> set (columns stub_table)"
    by (simp add: future_cols_def)
  moreover have "map (\<lambda>r. map_of r ''label_win'') (rows stub_table)
      = [Some (CInt 1), Some (CInt 0)]"
    by (simp add: stub_table_def)
  ultimately show ?thesis using stub_run by simp
qed

text \<open>
  Claim C8 as stated fails: with a schedule whose only game lies after the target week,
  no Contest remains, and the assembler returns an empty table instead of failing.
\<close>

theorem empty_range_counterexample:
  "assemble_modeling_table load_future rolling_stub situational_stub 2023 4 False =
     Inr \<lparr>columns = [''label_win''], rows = []\<rparr>"
  by (simp add: assemble_modeling_table_def load_all_schedules_def load_future_def
      List.map_filter_def bind_result_def kc_buf_game_def DataFrame_def unique_def
      add_training_labels_def set_column_def ensure_no_leakage_def future_cols_def
      drop_column_def Let_def)

lemma load_all_schedules_none:
  assumes "\<forall>s \<in> set [start_season..end_season]. \<exists>e. load_schedules s = Inl e"
  shows "load_all_schedules load_schedules start_season end_season =
           Inl (ValueError ''No schedules data available'')"
proof -
  have "List.map_filter (\<lambda>season_no. case load_schedules season_no of
          Inl e \<Rightarrow> None | Inr season_schedules \<Rightarrow> Some season_schedules) xs = []"
    if "\<forall>s \<in> set xs. \<exists>e. load_schedules s = Inl e" for xs
    using that by (induction xs) (auto simp: List.map_filter_simps)
  from this [OF assms] show ?thesis
    by (simp add: load_all_schedules_def)
qed

lemma load_all_schedules_some:
  assumes "s \<in> set [start_season..end_season]" "load_schedules s = Inr gs"
  shows "\<exists>all_schedules.
           load_all_schedules load_schedules start_season end_season = Inr all_schedules
           \<and> set all_schedules =
               {g. \<exists>s \<in> set [start_season..end_season]. \<exists>gs. load_schedules s = Inr gs \<and> g \<in> set gs}"
proof -
  let ?f = "\<lambda>season_no. case load_schedules season_no of
          Inl e \<Rightarrow> None | Inr season_schedules \<Rightarrow> Some season_schedules"
  let ?loaded = "List.map_filter ?f [start_season..end_season]"
  have mem: "gs' \<in> set (List.map_filter ?f xs) \<longleftrightarrow> (\<exists>s \<in> set xs. load_schedules s = Inr gs')"
    for gs' xs
    by (induction xs) (auto simp: List.map_filter_simps split: sum.splits)
  from assms have "gs \<in> set ?loaded"
    unfolding mem by blast
  then have ne: "?loaded \<noteq> []"
    by auto
  have "set (concat ?loaded) =
      {g. \<exists>s \<in> set [start_season..end_season]. \<exists>gs. load_schedules s = Inr gs \<and> g \<in> set gs}"
    unfolding set_concat using mem by blast
  with ne show ?thesis
    by (simp add: load_all_schedules_def)
qed

subsection \<open>An empty schedule range\<close>

text \<open>A schedule reader for which no season is available.\<close>

definition load_nothing :: "int \<Rightarrow> error + game list" where
  "load_nothing season_no = Inl (ValueError ''schedule not available'')"

lemma empty_modeling_table:
  "bind_result (add_training_labels (DataFrame []) all_schedules)
     (\<lambda>modeling_df. Inr (ensure_no_leakage modeling_df))
   = Inr \<lparr>columns = [''label_win''], rows = []\<rparr>"
  by (simp add: bind_result_def DataFrame_def unique_def add_training_labels_def
      set_column_def ensure_no_leakage_def future_cols_def drop_column_def)

text \<open>
  Claim C8, as amended. When no season of the range loads a schedule the assembler fails
  with \<open>ValueError('No schedules data available')\<close>; when at least one season loads
  and no Contest remains after the future ones are discarded, it returns the empty table
  (no rows, the label column only) and raises nothing.
\<close>

theorem empty_range_returns_empty_table:
  "((\<forall>s \<in> set [(if use_historical_data then 2020 else season_no)..season_no].
        \<exists>e. load_schedules s = Inl e)
      \<longrightarrow> assemble_modeling_table load_schedules rolling_calc situational_calc
            season_no week_no use_historical_data
          = Inl (ValueError ''No schedules data available''))
   \<and> ((\<exists>s \<in> set [(if use_historical_data then 2020 else season_no)..season_no].
          \<exists>gs. load_schedules s = Inr gs)
       \<and> (\<forall>s \<in> set [(if use_historical_data then 2020 else season_no)..season_no].
            \<forall>gs g. load_schedules s = Inr gs \<and> g \<in> set gs \<longrightarrow>
              season g > season_no \<or> (season g = season_no \<and> week g > week_no))
      \<longrightarrow> assemble_modeling_table load_schedules rolling_calc situational_calc
            season_no week_no use_historical_data
          = Inr \<lparr>columns = [''label_win''], rows = []\<rparr>)"
proof (intro conjI impI)
  let ?start = "if use_historical_data then 2020 else season_no"
  {
    assume "\<forall>s \<in> set [?start..season_no]. \<exists>e. load_schedules s = Inl e"
    then have "load_all_schedules load_schedules ?start season_no =
        Inl (ValueError ''No schedules data available'')"
      by (rule load_all_schedules_none)
    then show "assemble_modeling_table load_schedules rolling_calc situational_calc
            season_no week_no use_historical_data
          = Inl (ValueError ''No schedules data available'')"
      by (simp add: assemble_modeling_table_def bind_result_def)
  }
  {
    assume a: "(\<exists>s \<in> set [?start..season_no]. \<exists>gs. load_schedules s = Inr gs)
       \<and> (\<forall>s \<in> set [?start..season_no].
            \<forall>gs g. load_schedules s = Inr gs \<and> g \<in> set gs \<longrightarrow>
              season g > season_no \<or> (season g = season_no \<and> week g > week_no))"
    then obtain s gs where s: "s \<in> set [?start..season_no]" "load_schedules s = Inr gs"
      by blast
    from load_all_schedules_some [where load_schedules = load_schedules, OF s] obtain all_schedules where
      load: "load_all_schedules load_schedules ?start season_no = Inr all_schedules"
      and mem: "set all_schedules =
        {g. \<exists>s \<in> set [?start..season_no]. \<exists>gs. load_schedules s = Inr gs \<and> g \<in> set gs}"
      by blast
    have future: "season g > season_no \<or> (season g = season_no \<and> week g > week_no)"
      if "g \<in> set all_schedules" for g
      using that a unfolding mem by blast
    have "map (\<lambda>game.
             if season game > season_no \<or> (season game = season_no \<and> week game > week_no)
             then []
             else (case assemble_game_features rolling_calc situational_calc game
                          (season game) (week game) of
                     None \<Rightarrow> [] | Some game_features \<Rightarrow> game_features))
           all_schedules = map (\<lambda>game. []) all_schedules"
      by (rule map_cong) (simp_all add: future)
    then have data: "concat (map (\<lambda>game.
             if season game > season_no \<or> (season game = season_no \<and> week game > week_no)
             then []
             else (case assemble_game_features rolling_calc situational_calc game
                          (season game) (week game) of
                     None \<Rightarrow> [] | Some game_features \<Rightarrow> game_features))
           all_schedules) = []"
      by simp
    have "assemble_modeling_table load_schedules rolling_calc situational_calc
            season_no week_no use_historical_data
        = bind_result (add_training_labels (DataFrame (concat (map (\<lambda>game.
             if season game > season_no \<or> (season game = season_no \<and> week game > week_no)
             then []
             else (case assemble_game_features rolling_calc situational_calc game
                          (season game) (week game) of
                     None \<Rightarrow> [] | Some game_features \<Rightarrow> game_features))
           all_schedules))) all_schedules)
           (\<lambda>modeling_df. Inr (ensure_no_leakage modeling_df))"
      unfolding assemble_modeling_table_def Let_def load bind_result_def [of "Inr all_schedules"]
      by (simp only: sum.case)
    also have "\<dots> = Inr \<lparr>columns = [''label_win''], rows = []\<rparr>"
      unfolding data by (rule empty_modeling_table)
    finally show "assemble_modeling_table load_schedules rolling_calc situational_calc
            season_no week_no use_historical_data
          = Inr \<lparr>columns = [''label_win''], rows = []\<rparr>" .
  }
qed

theorem empty_range_returns_empty_table_witness:
  "assemble_modeling_table load_nothing rolling_stub situational_stub 2023 4 False
     = Inl (ValueError ''No schedules data available'')
   \<and> assemble_modeling_table load_future rolling_stub situational_stub 2023 4 False
     = Inr \<lparr>columns = [''label_win''], rows = []\<rparr>"
proof -
  have none: "\<forall>s \<in> set [(if False then 2020 else 2023)..2023].
      \<exists>e. load_nothing s = Inl e"
    by (simp add: load_nothing_def)
  have some: "(\<exists>s \<in> set [(if False then 2020 else 2023)..2023]. \<exists>gs. load_future s = Inr gs)
       \<and> (\<forall>s \<in> set [(if False then 2020 else 2023)..2023].
            \<forall>gs g. load_future s = Inr gs \<and> g \<in> set gs \<longrightarrow>
              season g > 2023 \<or> (season g = 2023 \<and> week g > 4))"
    by (auto simp: load_future_def)
  from empty_range_returns_empty_table [of False 2023 load_nothing rolling_stub
      situational_stub 4] none
  have a: "assemble_modeling_table load_nothing rolling_stub situational_stub 2023 4 False
     = Inl (ValueError ''No schedules data available'')"
    by blast
  from empty_range_returns_empty_table [of False 2023 load_future rolling_stub
      situational_stub 4] some
  have b: "assemble_modeling_table load_future rolling_stub situational_stub 2023 4 False
     = Inr \<lparr>columns = [''label_win''], rows = []\<rparr>"
    by blast
  from a b show ?thesis by (rule conjI)
qed

end
